theory Spec2Isabelle
  imports Main "HOL-Library.Char_ord"
begin

section \<open>Values of the runtime\<close>

text \<open>
  A shallow embedding of the reporting API: the validators and parsers of \<open>utils\<close>, the
  constants, the six query functions of \<open>db/queries.ts\<close> (the statement each builds, and
  for four of them the shaping of the rows) and the handlers of \<open>routes/sales.ts\<close> for
  the timeseries, users, leaderboard and compare endpoints. What the repository calls but
  does not contain is either modelled from its documented behaviour (\<open>parseInt\<close>,
  \<open>new Date\<close>, a regular expression) or a parameter (the database, \<open>toISOString\<close>,
  arithmetic on doubles).
\<close>

text \<open>
  A value of Express's \<open>req.query\<close>: a string, an array (a key given several times) or a
  nested object. An absent key is \<open>None\<close> in the query map (JavaScript's \<open>undefined\<close>).
\<close>

datatype qvalue = QStr string | QArr "string list" | QObj

type_synonym query = "string \<rightharpoonup> qvalue"

text \<open>
  A JavaScript number that holds an integer, or NaN. Integers are the mathematical ones:
  the rounding of integers beyond \<open>2^53\<close> to IEEE doubles is outside this embedding.
\<close>

datatype number = NaN | Number int

text \<open>Strings are lists of 8-bit code units; \<open>\d\<close> of a JavaScript regular expression is \<open>[0-9]\<close>.\<close>

definition isDigit :: "char \<Rightarrow> bool" where
  "isDigit c = (CHR ''0'' \<le> c \<and> c \<le> CHR ''9'')"

definition digitVal :: "char \<Rightarrow> nat" where
  "digitVal c = of_char c - 48"

definition decimalValue :: "string \<Rightarrow> nat" where
  "decimalValue ds = foldl (\<lambda>acc c. 10 * acc + digitVal c) 0 ds"

text \<open>
  The white space that \<open>parseInt\<close> skips (WhiteSpace and LineTerminator of ECMAScript), as
  far as it fits in one 8-bit code unit: TAB, LF, VT, FF, CR, SP, NBSP.
\<close>

definition isStrWhiteSpaceChar :: "char \<Rightarrow> bool" where
  "isStrWhiteSpaceChar c = (of_char c \<in> {9, 10, 11, 12, 13, 32, 160 :: nat})"

text \<open>
  \<open>parseInt(string, 10)\<close> of ECMAScript: skip leading white space, read one optional sign,
  take the longest run of decimal digits; NaN when that run is empty. Whatever follows the
  digits is ignored.
\<close>

definition parseInt :: "string \<Rightarrow> number" where
  "parseInt inputString =
     (let S = dropWhile isStrWhiteSpaceChar inputString;
          sign = (if S \<noteq> [] \<and> hd S = CHR ''-'' then - 1 else 1 :: int);
          S' = (if S \<noteq> [] \<and> (hd S = CHR ''+'' \<or> hd S = CHR ''-'') then tl S else S);
          Z = takeWhile isDigit S'
      in if Z = [] then NaN else Number (sign * int (decimalValue Z)))"

text \<open>
  A regular expression that is a sequence of single-character atoms between \<open>^\<close> and \<open>$\<close>
  (no flags: \<open>$\<close> is the end of the input only).
\<close>

datatype atom = Digit | Lit char

fun atom_matches :: "atom \<Rightarrow> char \<Rightarrow> bool" where
  "atom_matches Digit c = isDigit c"
| "atom_matches (Lit l) c = (c = l)"

fun regex_test :: "atom list \<Rightarrow> string \<Rightarrow> bool" where
  "regex_test [] [] = True"
| "regex_test (a # as) (c # cs) = (atom_matches a c \<and> regex_test as cs)"
| "regex_test _ _ = False"

text \<open>
  \<open>new Date(s)\<close> for a date-only string \<open>YYYY-MM-DD\<close>, as Node's engine (V8) parses it:
  the month has to be 1..12 and the day 1..31; the day is not compared with the length of
  the month, a day past the end of the month rolls over into the next month. The value is
  the time value in milliseconds since 1970-01-01 (UTC), or the invalid date, whose
  \<open>getTime()\<close> is NaN. The model is for strings of that shape only.
\<close>

datatype Date = InvalidDate | TimeValue int

definition daysFromCivil :: "int \<Rightarrow> int \<Rightarrow> int \<Rightarrow> int" where
  "daysFromCivil y m d =
     (let y' = (if m \<le> 2 then y - 1 else y);
          era = y' div 400;
          yoe = y' - era * 400;
          mp = (if m > 2 then m - 3 else m + 9);
          doy = (153 * mp + 2) div 5 + d - 1;
          doe = yoe * 365 + yoe div 4 - yoe div 100 + doy
      in era * 146097 + doe - 719468)"

definition yearOf :: "string \<Rightarrow> nat" where
  "yearOf s = decimalValue (take 4 s)"

definition monthOf :: "string \<Rightarrow> nat" where
  "monthOf s = decimalValue (take 2 (drop 5 s))"

definition dayOf :: "string \<Rightarrow> nat" where
  "dayOf s = decimalValue (take 2 (drop 8 s))"

definition new_Date :: "string \<Rightarrow> Date" where
  "new_Date s =
     (if 1 \<le> monthOf s \<and> monthOf s \<le> 12 \<and> 1 \<le> dayOf s \<and> dayOf s \<le> 31
      then TimeValue (daysFromCivil (int (yearOf s)) (int (monthOf s)) (int (dayOf s)) * 86400000)
      else InvalidDate)"

fun getTime :: "Date \<Rightarrow> number" where
  "getTime InvalidDate = NaN"
| "getTime (TimeValue t) = Number t"

fun isNaN :: "number \<Rightarrow> bool" where
  "isNaN NaN = True"
| "isNaN (Number n) = False"

section \<open>constants/index.ts\<close>

definition HTTP_OK :: nat where "HTTP_OK = 200"
definition HTTP_BAD_REQUEST :: nat where "HTTP_BAD_REQUEST = 400"
definition HTTP_INTERNAL_ERROR :: nat where "HTTP_INTERNAL_ERROR = 500"

definition INVALID_GRANULARITY :: string where "INVALID_GRANULARITY = ''INVALID_GRANULARITY''"
definition INVALID_DATE :: string where "INVALID_DATE = ''INVALID_DATE''"
definition INVALID_DATE_RANGE :: string where "INVALID_DATE_RANGE = ''INVALID_DATE_RANGE''"
definition INVALID_LIMIT :: string where "INVALID_LIMIT = ''INVALID_LIMIT''"
definition INVALID_OFFSET :: string where "INVALID_OFFSET = ''INVALID_OFFSET''"
definition MISSING_PARAMS :: string where "MISSING_PARAMS = ''MISSING_PARAMS''"
definition INTERNAL_ERROR :: string where "INTERNAL_ERROR = ''INTERNAL_ERROR''"

definition MSG_INVALID_DATE_FORMAT :: string where
  "MSG_INVALID_DATE_FORMAT = ''must be in YYYY-MM-DD format''"
definition MSG_INVALID_DATE_RANGE :: string where
  "MSG_INVALID_DATE_RANGE = ''start_date must be before end_date''"
definition MSG_INVALID_LIMIT :: string where
  "MSG_INVALID_LIMIT = ''limit must be between 1 and 100''"
definition MSG_INVALID_OFFSET :: string where
  "MSG_INVALID_OFFSET = ''offset must be a non-negative integer''"

definition VALID_GRANULARITIES :: "string list" where
  "VALID_GRANULARITIES = [''day'', ''week'', ''month'', ''quarter'', ''year'']"

definition VALID_DATE_TRUNC_INTERVALS :: "string set" where
  "VALID_DATE_TRUNC_INTERVALS = set VALID_GRANULARITIES"

text \<open>\<^verbatim>\<open>DATE_REGEX = /^\d{4}-\d{2}-\d{2}$/\<close>\<close>

definition DATE_REGEX :: "atom list" where
  "DATE_REGEX = [Digit, Digit, Digit, Digit, Lit CHR ''-'', Digit, Digit, Lit CHR ''-'',
                 Digit, Digit]"

definition MAX_LIMIT :: int where "MAX_LIMIT = 100"
definition MIN_LIMIT :: int where "MIN_LIMIT = 1"

section \<open>utils\<close>

text \<open>
  \<^verbatim>\<open>if (!DATE_REGEX.test(dateStr)) return false;
  const date = new Date(dateStr);
  return !isNaN(date.getTime());\<close>
\<close>

definition isValidDate :: "string \<Rightarrow> bool" where
  "isValidDate dateStr =
     (if \<not> regex_test DATE_REGEX dateStr then False
      else let date = new_Date dateStr in \<not> isNaN (getTime date))"

text \<open>
  \<^verbatim>\<open>if (typeof value !== 'string') return false;
  return granularities.includes(value);\<close>
\<close>

definition isValidGranularity :: "qvalue option \<Rightarrow> bool" where
  "isValidGranularity v =
     (case v of Some (QStr s) \<Rightarrow> s \<in> set VALID_GRANULARITIES | _ \<Rightarrow> False)"

text \<open>\<^verbatim>\<open>typeof value === 'string' && value.length > 0 ? value : undefined\<close>\<close>

definition parseStringParam :: "qvalue option \<Rightarrow> string option" where
  "parseStringParam v =
     (case v of Some (QStr s) \<Rightarrow> (if length s > 0 then Some s else None) | _ \<Rightarrow> None)"

text \<open>
  \<^verbatim>\<open>if (typeof value !== 'string') return undefined;
  const parsed = parseInt(value, 10);
  return isNaN(parsed) ? undefined : parsed;\<close>
\<close>

definition parseIntParam :: "qvalue option \<Rightarrow> int option" where
  "parseIntParam v =
     (case v of
        Some (QStr s) \<Rightarrow> (case parseInt s of NaN \<Rightarrow> None | Number n \<Rightarrow> Some n)
      | _ \<Rightarrow> None)"

text \<open>\<^verbatim>\<open>parseNumericString(value) = parseInt(value, 10)\<close>\<close>

definition parseNumericString :: "string \<Rightarrow> number" where
  "parseNumericString v = parseInt v"

section \<open>The calendar, in the words of the specification\<close>

text \<open>
  A string denotes a calendar-valid date when its month is 1..12 and its day is 1 up to the
  length of that month in that year (Gregorian leap years).
\<close>

definition isLeapYear :: "nat \<Rightarrow> bool" where
  "isLeapYear y = (y mod 4 = 0 \<and> (y mod 100 \<noteq> 0 \<or> y mod 400 = 0))"

definition daysInMonth :: "nat \<Rightarrow> nat \<Rightarrow> nat" where
  "daysInMonth y m =
     (if m = 2 then (if isLeapYear y then 29 else 28)
      else if m \<in> {4, 6, 9, 11} then 30 else 31)"

definition calendarValid :: "string \<Rightarrow> bool" where
  "calendarValid s =
     (1 \<le> monthOf s \<and> monthOf s \<le> 12 \<and> 1 \<le> dayOf s \<and> dayOf s \<le> daysInMonth (yearOf s) (monthOf s))"

section \<open>db: the statement handed to the database\<close>

text \<open>
  A bound parameter of a statement, and an exception thrown by the database layer or by a
  query function. \<open>query(text, params)\<close> of \<open>db/index.ts\<close> hands the statement to the
  connection pool: the database is a parameter of every query function, a function from the
  statement and its parameters to the rows, or to the exception.
\<close>

datatype param = PStr string | PNum int

datatype error = Error string

type_synonym 'row database = "string \<Rightarrow> param list \<Rightarrow> error + 'row list"

text \<open>\<open>String(n)\<close> of a non-negative integer (as a template literal converts it), and \<open>Array.prototype.join\<close>.\<close>

function Number_toString :: "nat \<Rightarrow> string" where
  "Number_toString n =
     (if n < 10 then [''0123456789'' ! n]
      else Number_toString (n div 10) @ [''0123456789'' ! (n mod 10)])"
  by pat_completeness auto
termination
  by (relation "measure id") auto

fun join :: "string \<Rightarrow> string list \<Rightarrow> string" where
  "join sep [] = []"
| "join sep [x] = x"
| "join sep (x # y # ys) = x @ sep @ join sep (y # ys)"

definition apostrophe :: string where
  "apostrophe = [CHR 0x27]"

text \<open>
  Truthiness of an optional string (\<open>undefined\<close> and the empty string are falsy) and of an
  optional number (\<open>undefined\<close> and 0 are falsy).
\<close>

fun truthyString :: "string option \<Rightarrow> bool" where
  "truthyString None = False"
| "truthyString (Some s) = (s \<noteq> [])"

fun truthyNumber :: "int option \<Rightarrow> bool" where
  "truthyNumber None = False"
| "truthyNumber (Some n) = (n \<noteq> 0)"

text \<open>
  The three local variables every query function threads through its filters, and the
  statements that update them:
  \<^verbatim>\<open>conditions.push(`s.date >= $${paramIndex}`); params.push(startDate); paramIndex++;\<close>
\<close>

record builder =
  conditions :: "string list"
  params :: "param list"
  paramIndex :: nat

definition emptyBuilder :: builder where
  "emptyBuilder = \<lparr>conditions = [], params = [], paramIndex = 1\<rparr>"

definition push :: "string \<Rightarrow> param \<Rightarrow> builder \<Rightarrow> builder" where
  "push lhs v b =
     b\<lparr>conditions := conditions b @ [lhs @ ''$'' @ Number_toString (paramIndex b)],
       params := params b @ [v]\<rparr>"

definition increment :: "builder \<Rightarrow> builder" where
  "increment b = b\<lparr>paramIndex := paramIndex b + 1\<rparr>"

definition ifString :: "string option \<Rightarrow> (string \<Rightarrow> builder \<Rightarrow> builder) \<Rightarrow> builder \<Rightarrow> builder" where
  "ifString v f b = (case v of Some s \<Rightarrow> (if s \<noteq> [] then f s b else b) | None \<Rightarrow> b)"

definition ifNumber :: "int option \<Rightarrow> (int \<Rightarrow> builder \<Rightarrow> builder) \<Rightarrow> builder \<Rightarrow> builder" where
  "ifNumber v f b = (case v of Some n \<Rightarrow> (if n \<noteq> 0 then f n b else b) | None \<Rightarrow> b)"

text \<open>\<^verbatim>\<open>conditions.length > 0 ? 'WHERE ' + conditions.join(' AND ') : ''\<close>\<close>

definition whereClauseOf :: "builder \<Rightarrow> string" where
  "whereClauseOf b =
     (if length (conditions b) > 0 then ''WHERE '' @ join '' AND '' (conditions b) else '''')"

text \<open>The template literals of \<open>db/queries.ts\<close>, character by character.\<close>

definition sql_getTimeSeries :: "string \<Rightarrow> string \<Rightarrow> string \<Rightarrow> string" where
  "sql_getTimeSeries truncFormat joinClause whereClause =
     ''\<newline>''
     @ ''    SELECT\<newline>''
     @ ''      DATE_TRUNC(''
     @ apostrophe
     @ truncFormat
     @ apostrophe
     @ '', s.date) as period,\<newline>''
     @ ''      SUM(s.amount) as total_revenue,\<newline>''
     @ ''      AVG(s.amount) as average_revenue,\<newline>''
     @ ''      COUNT(*)::integer as sale_count,\<newline>''
     @ ''      MIN(s.amount) as min_sale,\<newline>''
     @ ''      MAX(s.amount) as max_sale\<newline>''
     @ ''    FROM sales s\<newline>''
     @ ''    ''
     @ joinClause
     @ ''\<newline>''
     @ ''    ''
     @ whereClause
     @ ''\<newline>''
     @ ''    GROUP BY DATE_TRUNC(''
     @ apostrophe
     @ truncFormat
     @ apostrophe
     @ '', s.date)\<newline>''
     @ ''    ORDER BY period ASC\<newline>''
     @ ''  ''"

definition sql_getUserPerformance :: "string \<Rightarrow> string \<Rightarrow> string" where
  "sql_getUserPerformance whereClause limitClause =
     ''\<newline>''
     @ ''    SELECT\<newline>''
     @ ''      user_id,\<newline>''
     @ ''      user_name,\<newline>''
     @ ''      role,\<newline>''
     @ ''      total_revenue,\<newline>''
     @ ''      average_revenue,\<newline>''
     @ ''      sale_count,\<newline>''
     @ ''      min_sale,\<newline>''
     @ ''      max_sale,\<newline>''
     @ ''      total_count\<newline>''
     @ ''    FROM (\<newline>''
     @ ''      SELECT\<newline>''
     @ ''        u.id as user_id,\<newline>''
     @ ''        u.name as user_name,\<newline>''
     @ ''        u.role,\<newline>''
     @ ''        SUM(s.amount) as total_revenue,\<newline>''
     @ ''        AVG(s.amount) as average_revenue,\<newline>''
     @ ''        COUNT(*)::integer as sale_count,\<newline>''
     @ ''        MIN(s.amount) as min_sale,\<newline>''
     @ ''        MAX(s.amount) as max_sale,\<newline>''
     @ ''        COUNT(*) OVER()::integer as total_count\<newline>''
     @ ''      FROM users u\<newline>''
     @ ''      JOIN sales s ON u.id = s.user_id\<newline>''
     @ ''      ''
     @ whereClause
     @ ''\<newline>''
     @ ''      GROUP BY u.id, u.name, u.role\<newline>''
     @ ''    ) aggregated\<newline>''
     @ ''    ORDER BY total_revenue DESC\<newline>''
     @ ''    ''
     @ limitClause
     @ ''\<newline>''
     @ ''  ''"

definition sql_getGroupPerformance :: "string \<Rightarrow> string" where
  "sql_getGroupPerformance whereClause =
     ''\<newline>''
     @ ''    SELECT\<newline>''
     @ ''      g.id as group_id,\<newline>''
     @ ''      g.name as group_name,\<newline>''
     @ ''      SUM(s.amount) as total_revenue,\<newline>''
     @ ''      AVG(s.amount) as average_revenue,\<newline>''
     @ ''      COUNT(*)::integer as sale_count,\<newline>''
     @ ''      COUNT(DISTINCT ug.user_id)::integer as user_count,\<newline>''
     @ ''      MIN(s.amount) as min_sale,\<newline>''
     @ ''      MAX(s.amount) as max_sale\<newline>''
     @ ''    FROM groups g\<newline>''
     @ ''    JOIN user_groups ug ON g.id = ug.group_id\<newline>''
     @ ''    JOIN sales s ON ug.user_id = s.user_id\<newline>''
     @ ''    ''
     @ whereClause
     @ ''\<newline>''
     @ ''    GROUP BY g.id, g.name\<newline>''
     @ ''    ORDER BY total_revenue DESC\<newline>''
     @ ''  ''"

definition sql_getLeaderboard :: "string \<Rightarrow> string \<Rightarrow> string" where
  "sql_getLeaderboard whereClause limitParam =
     ''\<newline>''
     @ ''    SELECT\<newline>''
     @ ''      u.id as user_id,\<newline>''
     @ ''      u.name as user_name,\<newline>''
     @ ''      u.role,\<newline>''
     @ ''      SUM(s.amount) as total_revenue,\<newline>''
     @ ''      COUNT(*)::integer as sale_count\<newline>''
     @ ''    FROM users u\<newline>''
     @ ''    JOIN sales s ON u.id = s.user_id\<newline>''
     @ ''    ''
     @ whereClause
     @ ''\<newline>''
     @ ''    GROUP BY u.id, u.name, u.role\<newline>''
     @ ''    ORDER BY total_revenue DESC\<newline>''
     @ ''    LIMIT $''
     @ limitParam
     @ ''\<newline>''
     @ ''  ''"

definition sql_getSummaryStats :: "string \<Rightarrow> string" where
  "sql_getSummaryStats whereClause =
     ''\<newline>''
     @ ''    SELECT\<newline>''
     @ ''      SUM(amount) as total_revenue,\<newline>''
     @ ''      COUNT(*)::integer as total_sales,\<newline>''
     @ ''      AVG(amount) as average_sale,\<newline>''
     @ ''      MIN(amount) as min_sale,\<newline>''
     @ ''      MAX(amount) as max_sale,\<newline>''
     @ ''      COUNT(DISTINCT user_id)::integer as unique_sellers,\<newline>''
     @ ''      MIN(date) as first_sale_date,\<newline>''
     @ ''      MAX(date) as last_sale_date\<newline>''
     @ ''    FROM sales\<newline>''
     @ ''    ''
     @ whereClause
     @ ''\<newline>''
     @ ''  ''"

definition sql_getPeriodComparison :: "string" where
  "sql_getPeriodComparison =
     ''\<newline>''
     @ ''    SELECT\<newline>''
     @ ''      CASE\<newline>''
     @ ''        WHEN date >= $1 AND date <= $2 THEN ''
     @ apostrophe
     @ ''current''
     @ apostrophe
     @ ''\<newline>''
     @ ''        WHEN date >= $3 AND date <= $4 THEN ''
     @ apostrophe
     @ ''previous''
     @ apostrophe
     @ ''\<newline>''
     @ ''      END as period_label,\<newline>''
     @ ''      SUM(amount) as total_revenue,\<newline>''
     @ ''      COUNT(*)::integer as sale_count,\<newline>''
     @ ''      AVG(amount) as average_revenue\<newline>''
     @ ''    FROM sales\<newline>''
     @ ''    WHERE (date >= $1 AND date <= $2) OR (date >= $3 AND date <= $4)\<newline>''
     @ ''    GROUP BY period_label\<newline>''
     @ ''  ''"

section \<open>db/queries.ts: the statements that are built\<close>

text \<open>
  \<^verbatim>\<open>if (!VALID_DATE_TRUNC_INTERVALS.has(granularity)) throw new Error(...); return granularity;\<close>
\<close>

definition getSafeDateTruncInterval :: "string \<Rightarrow> error + string" where
  "getSafeDateTruncInterval granularity =
     (if granularity \<notin> VALID_DATE_TRUNC_INTERVALS
      then Inl (Error (''Invalid granularity: '' @ granularity))
      else Inr granularity)"

text \<open>
  Each \<open>build...\<close> is the part of the query function up to the call of \<open>query\<close>: the text
  of the statement and the list of its bound parameters.
\<close>

definition buildTimeSeries ::
  "string \<Rightarrow> string option \<Rightarrow> string option \<Rightarrow> int option \<Rightarrow> int option \<Rightarrow> string \<times> param list" where
  "buildTimeSeries truncFormat startDate endDate userId groupId =
     (let b1 = ifString startDate (\<lambda>v. increment \<circ> push ''s.date >= '' (PStr v)) emptyBuilder;
          b2 = ifString endDate (\<lambda>v. increment \<circ> push ''s.date <= '' (PStr v)) b1;
          b3 = ifNumber userId (\<lambda>v. increment \<circ> push ''s.user_id = '' (PNum v)) b2;
          b4 = ifNumber groupId (\<lambda>v. push ''ug.group_id = '' (PNum v)) b3;
          whereClause = whereClauseOf b4;
          joinClause = (if truthyNumber groupId
                        then ''JOIN user_groups ug ON s.user_id = ug.user_id'' else '''')
      in (sql_getTimeSeries truncFormat joinClause whereClause, params b4))"

text \<open>
  \<^verbatim>\<open>if (limit !== undefined) { limitClause = ` LIMIT $${paramIndex}`; params.push(limit); paramIndex++; }
  if (offset !== undefined) { limitClause += ` OFFSET $${paramIndex}`; params.push(offset); }\<close>
\<close>

definition buildUserPerformance ::
  "string option \<Rightarrow> string option \<Rightarrow> int option \<Rightarrow> int option \<Rightarrow> int option \<Rightarrow> string \<times> param list" where
  "buildUserPerformance startDate endDate userId limit offset =
     (let b1 = ifString startDate (\<lambda>v. increment \<circ> push ''s.date >= '' (PStr v)) emptyBuilder;
          b2 = ifString endDate (\<lambda>v. increment \<circ> push ''s.date <= '' (PStr v)) b1;
          b3 = ifNumber userId (\<lambda>v. increment \<circ> push ''u.id = '' (PNum v)) b2;
          whereClause = whereClauseOf b3;
          (limitClause1, params1, paramIndex1) =
            (case limit of
               None \<Rightarrow> ('''', params b3, paramIndex b3)
             | Some l \<Rightarrow> ('' LIMIT $'' @ Number_toString (paramIndex b3), params b3 @ [PNum l], paramIndex b3 + 1));
          (limitClause2, params2) =
            (case offset of
               None \<Rightarrow> (limitClause1, params1)
             | Some off \<Rightarrow> (limitClause1 @ '' OFFSET $'' @ Number_toString paramIndex1, params1 @ [PNum off]))
      in (sql_getUserPerformance whereClause limitClause2, params2))"

definition buildGroupPerformance ::
  "string option \<Rightarrow> string option \<Rightarrow> int option \<Rightarrow> string \<times> param list" where
  "buildGroupPerformance startDate endDate groupId =
     (let b1 = ifString startDate (\<lambda>v. increment \<circ> push ''s.date >= '' (PStr v)) emptyBuilder;
          b2 = ifString endDate (\<lambda>v. increment \<circ> push ''s.date <= '' (PStr v)) b1;
          b3 = ifNumber groupId (\<lambda>v. push ''g.id = '' (PNum v)) b2
      in (sql_getGroupPerformance (whereClauseOf b3), params b3))"

text \<open>
  \<^verbatim>\<open>limit: number = 10\<close>: the default of the parameter stands in for \<open>undefined\<close>.
  \<^verbatim>\<open>params.push(limit); const limitParam = paramIndex;\<close>
\<close>

definition buildLeaderboard ::
  "string option \<Rightarrow> string option \<Rightarrow> int option \<Rightarrow> string \<times> param list" where
  "buildLeaderboard startDate endDate limitArg =
     (let limit = (case limitArg of None \<Rightarrow> 10 | Some l \<Rightarrow> l);
          b1 = ifString startDate (\<lambda>v. increment \<circ> push ''s.date >= '' (PStr v)) emptyBuilder;
          b2 = ifString endDate (\<lambda>v. increment \<circ> push ''s.date <= '' (PStr v)) b1;
          params' = params b2 @ [PNum limit];
          limitParam = paramIndex b2
      in (sql_getLeaderboard (whereClauseOf b2) (Number_toString limitParam), params'))"

definition buildSummaryStats :: "string option \<Rightarrow> string option \<Rightarrow> string \<times> param list" where
  "buildSummaryStats startDate endDate =
     (let b1 = ifString startDate (\<lambda>v. increment \<circ> push ''date >= '' (PStr v)) emptyBuilder;
          b2 = ifString endDate (\<lambda>v. push ''date <= '' (PStr v)) b1
      in (sql_getSummaryStats (whereClauseOf b2), params b2))"

definition buildPeriodComparison ::
  "string \<Rightarrow> string \<Rightarrow> string \<Rightarrow> string \<Rightarrow> string \<times> param list" where
  "buildPeriodComparison currentStart currentEnd previousStart previousEnd =
     (sql_getPeriodComparison,
      [PStr currentStart, PStr currentEnd, PStr previousStart, PStr previousEnd])"

section \<open>db/queries.ts: running the statement and shaping the rows\<close>

text \<open>
  Two functions of \<open>utils\<close> work on values this embedding does not compute with, and take
  the runtime's part as a parameter. \<open>formatDateString\<close> is
  \<^verbatim>\<open>date.toISOString().split('T')[0]\<close>, with \<open>toISOString\<close> the parameter.
  \<open>formatDecimal\<close> (\<^verbatim>\<open>parseFloat(num.toFixed(2))\<close>) works on IEEE doubles: it is a
  parameter as a whole, of type \<open>string + 'double \<Rightarrow> 'double\<close> for its argument
  \<open>string | number\<close>, and so is \<open>percent a b\<close>, the double \<^verbatim>\<open>(a / b) * 100\<close>.
\<close>

definition formatDateString :: "(Date \<Rightarrow> string) \<Rightarrow> Date \<Rightarrow> string" where
  "formatDateString toISOString date = takeWhile (\<lambda>c. c \<noteq> CHR ''T'') (toISOString date)"

text \<open>Subtraction and the test \<open>x > 0\<close> on numbers: NaN propagates, and compares false.\<close>

fun minus_number :: "number \<Rightarrow> number \<Rightarrow> number" where
  "minus_number (Number a) (Number b) = Number (a - b)"
| "minus_number _ _ = NaN"

fun positive :: "number \<Rightarrow> bool" where
  "positive (Number a) = (a > 0)"
| "positive NaN = False"

record TimeSeriesRow =
  tsr_period :: Date
  tsr_total_revenue :: string
  tsr_average_revenue :: string
  tsr_sale_count :: string
  tsr_min_sale :: int
  tsr_max_sale :: int

record 'double TimeSeriesDataPoint =
  ts_period :: string
  ts_total_revenue :: number
  ts_average_revenue :: 'double
  ts_sale_count :: number
  ts_min_sale :: int
  ts_max_sale :: int

definition getTimeSeries ::
  "TimeSeriesRow database \<Rightarrow> (Date \<Rightarrow> string) \<Rightarrow> (string + 'double \<Rightarrow> 'double) \<Rightarrow>
   string \<Rightarrow> string option \<Rightarrow> string option \<Rightarrow> int option \<Rightarrow> int option \<Rightarrow>
   error + 'double TimeSeriesDataPoint list" where
  "getTimeSeries query toISOString formatDecimal granularity startDate endDate userId groupId =
     (case getSafeDateTruncInterval granularity of
        Inl e \<Rightarrow> Inl e
      | Inr truncFormat \<Rightarrow>
          (case buildTimeSeries truncFormat startDate endDate userId groupId of
             (sql, ps) \<Rightarrow>
               (case query sql ps of
                  Inl e \<Rightarrow> Inl e
                | Inr rows \<Rightarrow>
                    Inr (map (\<lambda>row.
                           \<lparr>ts_period = formatDateString toISOString (tsr_period row),
                            ts_total_revenue = parseNumericString (tsr_total_revenue row),
                            ts_average_revenue = formatDecimal (Inl (tsr_average_revenue row)),
                            ts_sale_count = parseNumericString (tsr_sale_count row),
                            ts_min_sale = tsr_min_sale row,
                            ts_max_sale = tsr_max_sale row\<rparr>) rows))))"

text \<open>The row of \<open>getUserPerformance\<close>: \<open>UserPerformanceRow & { total_count: number }\<close>.\<close>

record UserPerformanceRow =
  upr_user_id :: int
  upr_user_name :: string
  upr_role :: string
  upr_total_revenue :: string
  upr_average_revenue :: string
  upr_sale_count :: string
  upr_min_sale :: int
  upr_max_sale :: int
  upr_total_count :: int

record 'double UserPerformance =
  up_user_id :: int
  up_user_name :: string
  up_role :: string
  up_total_revenue :: number
  up_average_revenue :: 'double
  up_sale_count :: number
  up_min_sale :: int
  up_max_sale :: int

text \<open>
  \<^verbatim>\<open>const total = result.rows.length > 0 ? result.rows[0].total_count : 0;\<close>
  The result is the pair of \<open>data\<close> and \<open>total\<close>.
\<close>

definition getUserPerformance ::
  "UserPerformanceRow database \<Rightarrow> (string + 'double \<Rightarrow> 'double) \<Rightarrow>
   string option \<Rightarrow> string option \<Rightarrow> int option \<Rightarrow> int option \<Rightarrow> int option \<Rightarrow>
   error + ('double UserPerformance list \<times> int)" where
  "getUserPerformance query formatDecimal startDate endDate userId limit offset =
     (case buildUserPerformance startDate endDate userId limit offset of
        (sql, ps) \<Rightarrow>
          (case query sql ps of
             Inl e \<Rightarrow> Inl e
           | Inr rows \<Rightarrow>
               (let total = (case rows of [] \<Rightarrow> 0 | row0 # _ \<Rightarrow> upr_total_count row0);
                    data = map (\<lambda>row.
                             \<lparr>up_user_id = upr_user_id row,
                              up_user_name = upr_user_name row,
                              up_role = upr_role row,
                              up_total_revenue = parseNumericString (upr_total_revenue row),
                              up_average_revenue = formatDecimal (Inl (upr_average_revenue row)),
                              up_sale_count = parseNumericString (upr_sale_count row),
                              up_min_sale = upr_min_sale row,
                              up_max_sale = upr_max_sale row\<rparr>) rows
                in Inr (data, total))))"




record ComparisonRow =
  cr_period_label :: string
  cr_total_revenue :: string
  cr_sale_count :: string
  cr_average_revenue :: string

record 'double PeriodMetrics =
  pm_period :: string
  pm_total_revenue :: number
  pm_sale_count :: number
  pm_average_revenue :: 'double

record 'double PeriodChange =
  revenue_change :: number
  revenue_change_pct :: 'double
  count_change :: number
  count_change_pct :: 'double

record 'double PeriodComparison =
  current :: "'double PeriodMetrics"
  previous :: "'double PeriodMetrics"
  change :: "'double PeriodChange"

text \<open>
  \<^verbatim>\<open>const currentData = result.rows.find((r) => r.period_label === 'current');
  total_revenue: currentData ? parseNumericString(currentData.total_revenue) : 0, ...\<close>
\<close>

definition periodMetrics ::
  "(string + 'double \<Rightarrow> 'double) \<Rightarrow> string \<Rightarrow> ComparisonRow option \<Rightarrow> ('double::zero) PeriodMetrics" where
  "periodMetrics formatDecimal periodText found =
     \<lparr>pm_period = periodText,
      pm_total_revenue =
        (case found of Some r \<Rightarrow> parseNumericString (cr_total_revenue r) | None \<Rightarrow> Number 0),
      pm_sale_count =
        (case found of Some r \<Rightarrow> parseNumericString (cr_sale_count r) | None \<Rightarrow> Number 0),
      pm_average_revenue =
        (case found of Some r \<Rightarrow> formatDecimal (Inl (cr_average_revenue r)) | None \<Rightarrow> 0)\<rparr>"

definition getPeriodComparison ::
  "ComparisonRow database \<Rightarrow> (string + 'double \<Rightarrow> 'double) \<Rightarrow> (number \<Rightarrow> number \<Rightarrow> 'double) \<Rightarrow>
   string \<Rightarrow> string \<Rightarrow> string \<Rightarrow> string \<Rightarrow> error + ('double::zero) PeriodComparison" where
  "getPeriodComparison query formatDecimal percent currentStart currentEnd previousStart previousEnd =
     (case buildPeriodComparison currentStart currentEnd previousStart previousEnd of
        (sql, ps) \<Rightarrow>
          (case query sql ps of
             Inl e \<Rightarrow> Inl e
           | Inr rows \<Rightarrow>
               (let currentData = find (\<lambda>r. cr_period_label r = ''current'') rows;
                    previousData = find (\<lambda>r. cr_period_label r = ''previous'') rows;
                    cur = periodMetrics formatDecimal (currentStart @ '' to '' @ currentEnd) currentData;
                    prev = periodMetrics formatDecimal (previousStart @ '' to '' @ previousEnd) previousData;
                    revenueChange = minus_number (pm_total_revenue cur) (pm_total_revenue prev);
                    countChange = minus_number (pm_sale_count cur) (pm_sale_count prev)
                in Inr \<lparr>current = cur,
                        previous = prev,
                        change =
                          \<lparr>revenue_change = revenueChange,
                           revenue_change_pct =
                             (if positive (pm_total_revenue prev)
                              then formatDecimal (Inr (percent revenueChange (pm_total_revenue prev)))
                              else 0),
                           count_change = countChange,
                           count_change_pct =
                             (if positive (pm_sale_count prev)
                              then formatDecimal (Inr (percent countChange (pm_sale_count prev)))
                              else 0)\<rparr>\<rparr>)))"

section \<open>routes/sales.ts\<close>

text \<open>
  The response of a handler: \<open>res.json({ success: true, data, meta })\<close>, with status 200, or
  \<open>sendError(res, status, code, message)\<close>. The fields of \<open>meta\<close> are optional.
\<close>

record meta =
  meta_total :: "int option"
  meta_limit :: "int option"
  meta_offset :: "int option"
  meta_period :: "(string \<times> string) option"

datatype 'a response = Success 'a "meta option" | Failure nat string string

definition sendError :: "nat \<Rightarrow> string \<Rightarrow> string \<Rightarrow> 'a response" where
  "sendError status code message = Failure status code message"


text \<open>\<open>a > b\<close> on strings: by code units, a proper prefix is smaller.\<close>

fun string_gt :: "string \<Rightarrow> string \<Rightarrow> bool" where
  "string_gt [] bs = False"
| "string_gt (a # as) [] = True"
| "string_gt (a # as) (b # bs) =
     ((of_char a :: nat) > of_char b \<or> (a = b \<and> string_gt as bs))"

text \<open>
  The three conditions on the dates that five handlers repeat:
  \<^verbatim>\<open>startDate && !isValidDate(startDate)\<close> (the same with \<open>endDate\<close>) and
  \<^verbatim>\<open>startDate && endDate && startDate > endDate\<close>.
\<close>

fun notValidDate :: "string option \<Rightarrow> bool" where
  "notValidDate None = False"
| "notValidDate (Some s) = (s \<noteq> [] \<and> \<not> isValidDate s)"

fun startAfterEnd :: "string option \<Rightarrow> string option \<Rightarrow> bool" where
  "startAfterEnd (Some s) (Some e) = (s \<noteq> [] \<and> e \<noteq> [] \<and> string_gt s e)"
| "startAfterEnd _ _ = False"

text \<open>\<open>a || b\<close> for an optional string \<open>a\<close>.\<close>

fun orElse :: "string option \<Rightarrow> string \<Rightarrow> string" where
  "orElse None b = b"
| "orElse (Some a) b = (if a \<noteq> [] then a else b)"

text \<open>
  \<open>GET /timeseries\<close>. The local \<open>granularity\<close> is the parameter when it is valid, else
  \<open>'month'\<close>; a parameter that is present and not valid is refused first.
\<close>

definition timeseries ::
  "TimeSeriesRow database \<Rightarrow> (Date \<Rightarrow> string) \<Rightarrow> (string + 'double \<Rightarrow> 'double) \<Rightarrow> query \<Rightarrow>
   'double TimeSeriesDataPoint list response" where
  "timeseries query toISOString formatDecimal req =
     (let granularityParam = parseStringParam (req ''granularity'');
          startDate = parseStringParam (req ''start_date'');
          endDate = parseStringParam (req ''end_date'');
          userId = parseIntParam (req ''user_id'');
          groupId = parseIntParam (req ''group_id'');
          granularity = (case granularityParam of
                           Some g \<Rightarrow> (if isValidGranularity (Some (QStr g)) then g else ''month'')
                         | None \<Rightarrow> ''month'')
      in if granularityParam \<noteq> None \<and> \<not> isValidGranularity (map_option QStr granularityParam)
         then sendError HTTP_BAD_REQUEST INVALID_GRANULARITY
                (''Invalid granularity. Must be one of: '' @ join '', '' VALID_GRANULARITIES)
         else if notValidDate startDate
         then sendError HTTP_BAD_REQUEST INVALID_DATE (''start_date '' @ MSG_INVALID_DATE_FORMAT)
         else if notValidDate endDate
         then sendError HTTP_BAD_REQUEST INVALID_DATE (''end_date '' @ MSG_INVALID_DATE_FORMAT)
         else if startAfterEnd startDate endDate
         then sendError HTTP_BAD_REQUEST INVALID_DATE_RANGE MSG_INVALID_DATE_RANGE
         else
           (case getTimeSeries query toISOString formatDecimal granularity startDate endDate userId groupId of
              Inl err \<Rightarrow>
                sendError HTTP_INTERNAL_ERROR INTERNAL_ERROR ''Failed to fetch time series data''
            | Inr data \<Rightarrow>
                Success data
                  (Some \<lparr>meta_total = Some (int (length data)),
                         meta_limit = None,
                         meta_offset = None,
                         meta_period =
                           Some (orElse startDate (if length data > 0 then ts_period (hd data) else ''''),
                                 orElse endDate (if length data > 0 then ts_period (last data) else ''''))\<rparr>)))"

text \<open>\<open>GET /users\<close>.\<close>

definition users ::
  "UserPerformanceRow database \<Rightarrow> (string + 'double \<Rightarrow> 'double) \<Rightarrow> query \<Rightarrow>
   'double UserPerformance list response" where
  "users query formatDecimal req =
     (let startDate = parseStringParam (req ''start_date'');
          endDate = parseStringParam (req ''end_date'');
          userId = parseIntParam (req ''user_id'');
          limit = parseIntParam (req ''limit'');
          offset = parseIntParam (req ''offset'')
      in if notValidDate startDate
         then sendError HTTP_BAD_REQUEST INVALID_DATE (''start_date '' @ MSG_INVALID_DATE_FORMAT)
         else if notValidDate endDate
         then sendError HTTP_BAD_REQUEST INVALID_DATE (''end_date '' @ MSG_INVALID_DATE_FORMAT)
         else if startAfterEnd startDate endDate
         then sendError HTTP_BAD_REQUEST INVALID_DATE_RANGE MSG_INVALID_DATE_RANGE
         else if (case limit of Some l \<Rightarrow> l < MIN_LIMIT \<or> l > MAX_LIMIT | None \<Rightarrow> False)
         then sendError HTTP_BAD_REQUEST INVALID_LIMIT MSG_INVALID_LIMIT
         else if (case offset of Some off \<Rightarrow> off < 0 | None \<Rightarrow> False)
         then sendError HTTP_BAD_REQUEST INVALID_OFFSET MSG_INVALID_OFFSET
         else
           (case getUserPerformance query formatDecimal startDate endDate userId limit offset of
              Inl err \<Rightarrow>
                sendError HTTP_INTERNAL_ERROR INTERNAL_ERROR ''Failed to fetch user performance data''
            | Inr (data, total') \<Rightarrow>
                Success data
                  (Some \<lparr>meta_total = Some total',
                         meta_limit = limit,
                         meta_offset = offset,
                         meta_period = None\<rparr>)))"


text \<open>
  \<open>GET /compare\<close>.
  \<^verbatim>\<open>if (!currentStart || !currentEnd || !previousStart || !previousEnd) return sendError(...);
  for (const date of dates) { if (!isValidDate(date)) return sendError(...); }\<close>
  \<open>allPresent\<close> is the four strings when each is truthy.
\<close>

fun allPresent ::
  "string option \<Rightarrow> string option \<Rightarrow> string option \<Rightarrow> string option \<Rightarrow>
   (string \<times> string \<times> string \<times> string) option" where
  "allPresent (Some a) (Some b) (Some c) (Some d) =
     (if a = [] \<or> b = [] \<or> c = [] \<or> d = [] then None else Some (a, b, c, d))"
| "allPresent _ _ _ _ = None"

definition compare ::
  "ComparisonRow database \<Rightarrow> (string + 'double \<Rightarrow> 'double) \<Rightarrow> (number \<Rightarrow> number \<Rightarrow> 'double) \<Rightarrow>
   query \<Rightarrow> ('double::zero) PeriodComparison response" where
  "compare query formatDecimal percent req =
     (let currentStart = parseStringParam (req ''current_start'');
          currentEnd = parseStringParam (req ''current_end'');
          previousStart = parseStringParam (req ''previous_start'');
          previousEnd = parseStringParam (req ''previous_end'')
      in case allPresent currentStart currentEnd previousStart previousEnd of
           None \<Rightarrow>
             sendError HTTP_BAD_REQUEST MISSING_PARAMS
               ''All date parameters are required: current_start, current_end, previous_start, previous_end''
         | Some (cs, ce, ps, pe) \<Rightarrow>
             (case find (\<lambda>date. \<not> isValidDate date) [cs, ce, ps, pe] of
                Some date \<Rightarrow>
                  sendError HTTP_BAD_REQUEST INVALID_DATE
                    (''Invalid date format: '' @ date @ ''. Use YYYY-MM-DD'')
              | None \<Rightarrow>
                  (case getPeriodComparison query formatDecimal percent cs ce ps pe of
                     Inl err \<Rightarrow>
                       sendError HTTP_INTERNAL_ERROR INTERNAL_ERROR ''Failed to fetch period comparison''
                   | Inr data \<Rightarrow> Success data None)))"

section \<open>The answers of the database\<close>


text \<open>
  The statement of \<open>getPeriodComparison\<close>, over the table \<open>sales\<close>. A date is the number of
  its day; \<open>d1 .. d4\<close> are the dates the database reads from the four bound parameters.
  \<open>WHERE\<close> keeps the sales of either range, \<open>CASE\<close> labels a sale with the first range it
  lies in, \<open>GROUP BY\<close> gives one row for each label that has a sale. \<open>SUM\<close> and
  \<open>COUNT\<close> arrive as decimal text; how the database writes \<open>AVG\<close> is the parameter
  \<open>avgText\<close>.
\<close>

record Sale =
  sale_id :: int
  sale_user_id :: int
  sale_amount :: int
  sale_date :: int

definition intText :: "int \<Rightarrow> string" where
  "intText i = (if i < 0 then ''-'' @ Number_toString (nat (- i)) else Number_toString (nat i))"

definition inPeriod :: "int \<Rightarrow> int \<Rightarrow> Sale \<Rightarrow> bool" where
  "inPeriod dStart dEnd s = (dStart \<le> sale_date s \<and> sale_date s \<le> dEnd)"

definition periodLabel :: "int \<Rightarrow> int \<Rightarrow> int \<Rightarrow> int \<Rightarrow> Sale \<Rightarrow> string option" where
  "periodLabel d1 d2 d3 d4 s =
     (if inPeriod d1 d2 s then Some ''current''
      else if inPeriod d3 d4 s then Some ''previous''
      else None)"

definition comparisonGroup ::
  "(int list \<Rightarrow> string) \<Rightarrow> Sale list \<Rightarrow> int \<Rightarrow> int \<Rightarrow> int \<Rightarrow> int \<Rightarrow> string \<Rightarrow> ComparisonRow list" where
  "comparisonGroup avgText selected d1 d2 d3 d4 label =
     (let amounts = map sale_amount (filter (\<lambda>s. periodLabel d1 d2 d3 d4 s = Some label) selected)
      in if amounts = [] then []
         else [\<lparr>cr_period_label = label,
                cr_total_revenue = intText (sum_list amounts),
                cr_sale_count = intText (int (length amounts)),
                cr_average_revenue = avgText amounts\<rparr>])"

definition comparisonAnswer ::
  "(int list \<Rightarrow> string) \<Rightarrow> Sale list \<Rightarrow> int \<Rightarrow> int \<Rightarrow> int \<Rightarrow> int \<Rightarrow> ComparisonRow list" where
  "comparisonAnswer avgText sales d1 d2 d3 d4 =
     (let selected = filter (\<lambda>s. inPeriod d1 d2 s \<or> inPeriod d3 d4 s) sales
      in comparisonGroup avgText selected d1 d2 d3 d4 ''current''
         @ comparisonGroup avgText selected d1 d2 d3 d4 ''previous'')"

section \<open>Notions of the statements\<close>




text \<open>
  The parameters a filter binds: a date when it is truthy, an id when it is truthy, a limit
  or an offset when it is defined.
\<close>

fun boundString :: "string option \<Rightarrow> param list" where
  "boundString None = []"
| "boundString (Some s) = (if s = [] then [] else [PStr s])"

fun boundNumber :: "int option \<Rightarrow> param list" where
  "boundNumber None = []"
| "boundNumber (Some n) = (if n = 0 then [] else [PNum n])"

fun boundDefined :: "int option \<Rightarrow> param list" where
  "boundDefined None = []"
| "boundDefined (Some n) = [PNum n]"



text \<open>The metrics of a period with every value zero.\<close>

definition zeroMetrics :: "string \<Rightarrow> ('double::zero) PeriodMetrics" where
  "zeroMetrics periodText =
     \<lparr>pm_period = periodText, pm_total_revenue = Number 0, pm_sale_count = Number 0,
      pm_average_revenue = 0\<rparr>"

section \<open>Concrete runtimes, databases and requests\<close>

text \<open>They are the inputs at which the theorems are instantiated.\<close>

definition exFormatDecimal :: "string + int \<Rightarrow> int" where
  "exFormatDecimal v = (case v of Inl s \<Rightarrow> 0 | Inr x \<Rightarrow> x)"

definition exPercent :: "number \<Rightarrow> number \<Rightarrow> int" where
  "exPercent a b = 0"

definition exToISOString :: "Date \<Rightarrow> string" where
  "exToISOString d =
     (case d of
        InvalidDate \<Rightarrow> ''''
      | TimeValue t \<Rightarrow>
          (if t = 1609459200000 then ''2021-01-01T00:00:00.000Z'' else ''2021-02-01T00:00:00.000Z''))"

definition noRows :: "'row database" where
  "noRows sql ps = Inr []"

definition exTimeSeriesRows :: "TimeSeriesRow list" where
  "exTimeSeriesRows =
     [\<lparr>tsr_period = TimeValue 1609459200000, tsr_total_revenue = ''1000000'',
       tsr_average_revenue = ''25000.00'', tsr_sale_count = ''40'', tsr_min_sale = 1000,
       tsr_max_sale = 50000\<rparr>,
      \<lparr>tsr_period = TimeValue 1612137600000, tsr_total_revenue = ''1200000'',
       tsr_average_revenue = ''26086.96'', tsr_sale_count = ''46'', tsr_min_sale = 1100,
       tsr_max_sale = 49000\<rparr>]"

definition exTimeSeriesDb :: "TimeSeriesRow database" where
  "exTimeSeriesDb sql ps = Inr exTimeSeriesRows"



text \<open>One sale, on day 40; the current period is the days 1..31, the previous one 32..59.\<close>

definition exSales :: "Sale list" where
  "exSales = [\<lparr>sale_id = 1, sale_user_id = 7, sale_amount = 500, sale_date = 40\<rparr>]"

definition exAvgText :: "int list \<Rightarrow> string" where
  "exAvgText amounts = ''500.0000000000000000''"

definition exComparisonDb :: "ComparisonRow database" where
  "exComparisonDb sql ps = Inr (comparisonAnswer exAvgText exSales 1 31 32 59)"

section \<open>Date validation\<close>

lemmas date_evals =
  isValidDate_def DATE_REGEX_def isDigit_def new_Date_def yearOf_def monthOf_def dayOf_def
  decimalValue_def digitVal_def calendarValid_def daysInMonth_def isLeapYear_def

lemma isValidDate_iff:
  "isValidDate s \<longleftrightarrow>
     regex_test DATE_REGEX s \<and> 1 \<le> monthOf s \<and> monthOf s \<le> 12 \<and> 1 \<le> dayOf s \<and> dayOf s \<le> 31"
  by (simp add: isValidDate_def new_Date_def)

lemma daysInMonth_le_31: "daysInMonth y m \<le> 31"
  by (simp add: daysInMonth_def)

lemma calendarValid_accepted:
  "regex_test DATE_REGEX s \<Longrightarrow> calendarValid s \<Longrightarrow> isValidDate s"
  using daysInMonth_le_31 [of "yearOf s" "monthOf s"]
  by (simp add: isValidDate_iff calendarValid_def)

lemma isValidDate_rejections:
  "\<not> isValidDate ''2021-13-01''" "\<not> isValidDate ''2021-00-01''" "\<not> isValidDate ''2021/01/01''"
  "\<not> isValidDate ''2021-1-1''" "\<not> isValidDate ''''" "\<not> isValidDate ''2021-01-00''"
  "\<not> isValidDate ''2021-01-32''"
  by (simp_all add: date_evals)

lemma new_Date_rolls_over:
  "new_Date ''2021-02-29'' = new_Date ''2021-03-01''"
  "new_Date ''2021-01-01'' = TimeValue 1609459200000"
  by (simp_all add: date_evals daysFromCivil_def)

lemma isValidDate_past_the_end_of_a_month:
  "isValidDate ''2021-02-30''" "isValidDate ''2021-02-31''" "isValidDate ''2021-04-31''"
  "isValidDate ''2020-02-29''" "calendarValid ''2020-02-29''" "\<not> calendarValid ''2021-04-31''"
  by (simp_all add: date_evals)

text \<open>
  C1. The validator is meant to accept exactly the strings of the shape \<open>YYYY-MM-DD\<close> that
  denote a calendar-valid date. At \<open>2021-02-29\<close> it does not: the string has the shape,
  February 2021 has 28 days, and the validator accepts it.
\<close>

theorem isValidDate_accepts_2021_02_29:
  "regex_test DATE_REGEX ''2021-02-29'' \<and> \<not> calendarValid ''2021-02-29''
   \<and> isValidDate ''2021-02-29'' = True"
  by (simp add: date_evals)

section \<open>The compare endpoint\<close>

lemmas code_consts =
  HTTP_OK_def HTTP_BAD_REQUEST_def HTTP_INTERNAL_ERROR_def INVALID_GRANULARITY_def INVALID_DATE_def
  INVALID_DATE_RANGE_def INVALID_LIMIT_def INVALID_OFFSET_def MISSING_PARAMS_def INTERNAL_ERROR_def

lemma parseStringParam_None [simp]: "parseStringParam None = None"
  by (simp add: parseStringParam_def)

lemma parseStringParam_Some: "parseStringParam v = Some s \<longleftrightarrow> v = Some (QStr s) \<and> s \<noteq> []"
  by (auto simp: parseStringParam_def split: option.splits qvalue.splits)

lemma allPresent_None:
  "a = None \<or> b = None \<or> c = None \<or> d = None \<Longrightarrow> allPresent a b c d = None"
  by (cases a; cases b; cases c; cases d) auto

text \<open>
  A bound that is absent, empty or not a string (whatever \<open>parseStringParam\<close> turns into
  \<open>undefined\<close>) is answered with \<open>MISSING_PARAMS\<close>, whatever the other three hold.
\<close>

lemma compare_missing:
  assumes "parseStringParam (req ''current_start'') = None \<or> parseStringParam (req ''current_end'') = None
         \<or> parseStringParam (req ''previous_start'') = None \<or> parseStringParam (req ''previous_end'') = None"
  shows "compare query formatDecimal percent req =
         Failure 400 ''MISSING_PARAMS''
           ''All date parameters are required: current_start, current_end, previous_start, previous_end''"
  using allPresent_None [OF assms]
  by (simp add: compare_def sendError_def code_consts)

text \<open>
  C5. On the compare endpoint the four bounds are mandatory: when at least one of
  \<open>current_start\<close>, \<open>current_end\<close>, \<open>previous_start\<close>, \<open>previous_end\<close> is absent from the
  request, the response is 400 with the code \<open>MISSING_PARAMS\<close>. Nothing is assumed of the
  bounds that are supplied, so the response is the same when one of them is malformed: the
  check runs before the checks of the date format.
\<close>

theorem compare_absent_bound_is_missing_params:
  assumes "req ''current_start'' = None \<or> req ''current_end'' = None
         \<or> req ''previous_start'' = None \<or> req ''previous_end'' = None"
  shows "compare query formatDecimal percent req =
         Failure 400 ''MISSING_PARAMS''
           ''All date parameters are required: current_start, current_end, previous_start, previous_end''"
  using assms by (intro compare_missing) auto

text \<open>The request lacks \<open>previous_end\<close> and its \<open>current_start\<close> is malformed.\<close>

theorem compare_absent_bound_is_missing_params_witness:
  "[''current_start'' \<mapsto> QStr ''not-a-date'', ''current_end'' \<mapsto> QStr ''2021-12-31'',
    ''previous_start'' \<mapsto> QStr ''2021-01-01''] ''previous_end'' = None
   \<and> \<not> isValidDate ''not-a-date''
   \<and> compare (\<lambda>sql ps. Inr []) (\<lambda>v. 0 :: int) (\<lambda>a b. 0)
        [''current_start'' \<mapsto> QStr ''not-a-date'', ''current_end'' \<mapsto> QStr ''2021-12-31'',
         ''previous_start'' \<mapsto> QStr ''2021-01-01'']
      = Failure 400 ''MISSING_PARAMS''
          ''All date parameters are required: current_start, current_end, previous_start, previous_end''"
  using compare_absent_bound_is_missing_params
    [of "[''current_start'' \<mapsto> QStr ''not-a-date'', ''current_end'' \<mapsto> QStr ''2021-12-31'',
          ''previous_start'' \<mapsto> QStr ''2021-01-01'']" "\<lambda>sql ps. Inr []" "\<lambda>v. 0 :: int" "\<lambda>a b. 0"]
  by (simp add: date_evals)

section \<open>Granularity\<close>




text \<open>
  A \<open>granularity\<close> that is not a string (the key given twice, so that the value is an
  array) or that is the empty string is \<open>undefined\<close> after \<open>parseStringParam\<close>: the
  request is answered as the request without the parameter.
\<close>

lemma timeseries_granularity_not_a_string:
  "timeseries query toISOString formatDecimal (req(''granularity'' \<mapsto> QArr xs))
     = timeseries query toISOString formatDecimal (req(''granularity'' := None))"
  "timeseries query toISOString formatDecimal (req(''granularity'' \<mapsto> QObj))
     = timeseries query toISOString formatDecimal (req(''granularity'' := None))"
  "timeseries query toISOString formatDecimal (req(''granularity'' \<mapsto> QStr ''''))
     = timeseries query toISOString formatDecimal (req(''granularity'' := None))"
  by (simp_all add: timeseries_def parseStringParam_def Let_def)



section \<open>Pagination\<close>


lemmas parse_evals =
  parseIntParam_def parseInt_def isStrWhiteSpaceChar_def isDigit_def decimalValue_def digitVal_def

lemma parseIntParam_None [simp]: "parseIntParam None = None"
  by (simp add: parseIntParam_def)

lemma parseIntParam_examples:
  "parseIntParam (Some (QStr ''10.5'')) = Some 10"
  "parseIntParam (Some (QStr ''3.9'')) = Some 3"
  "parseIntParam (Some (QStr ''-5'')) = Some (- 5)"
  "parseIntParam (Some (QStr ''abc'')) = None"
  "parseIntParam (Some (QStr '''')) = None"
  "parseIntParam (Some (QStr ''10'')) = Some 10"
  "parseIntParam (Some (QStr ''0'')) = Some 0"
  "parseIntParam (Some (QStr ''1'')) = Some 1"
  "parseIntParam (Some (QStr ''100'')) = Some 100"
  "parseIntParam (Some (QStr ''101'')) = Some 101"
  "parseIntParam (Some (QStr ''-1'')) = Some (- 1)"
  by (simp_all add: parse_evals)









section \<open>The meta block of the time series\<close>

lemma orElse_parseStringParam:
  "orElse (parseStringParam v) b = (case parseStringParam v of Some s \<Rightarrow> s | None \<Rightarrow> b)"
  by (simp add: parseStringParam_def split: option.splits qvalue.splits)

text \<open>
  C8. In every successful response of the timeseries endpoint, \<open>meta.total\<close> is the number
  of buckets in \<open>data\<close>; \<open>meta.period.start\<close> is the \<open>start_date\<close> of the request when it
  has one, otherwise the period of the first bucket when there is one, otherwise the empty
  string; \<open>meta.period.end\<close> is the \<open>end_date\<close>, otherwise the period of the last bucket,
  otherwise the empty string.
\<close>

theorem timeseries_meta:
  assumes "timeseries query toISOString formatDecimal req = Success data m"
  shows "\<exists>mm. m = Some mm \<and> meta_total mm = Some (int (length data))
           \<and> meta_period mm =
               Some (case parseStringParam (req ''start_date'') of
                       Some s \<Rightarrow> s
                     | None \<Rightarrow> (if data \<noteq> [] then ts_period (hd data) else ''''),
                     case parseStringParam (req ''end_date'') of
                       Some e \<Rightarrow> e
                     | None \<Rightarrow> (if data \<noteq> [] then ts_period (last data) else ''''))"
  using assms
  by (auto simp: timeseries_def Let_def sendError_def orElse_parseStringParam
      split: if_splits sum.splits)

lemmas handler_evals =
  timeseries_def getTimeSeries_def getSafeDateTruncInterval_def VALID_DATE_TRUNC_INTERVALS_def
  VALID_GRANULARITIES_def isValidGranularity_def parseStringParam_def formatDateString_def
  parseNumericString_def

text \<open>
  A request with an \<open>end_date\<close> only, answered with two buckets, and the empty request
  answered with none.
\<close>

theorem timeseries_meta_witness:
  "(\<exists>data mm. timeseries exTimeSeriesDb exToISOString exFormatDecimal [''end_date'' \<mapsto> QStr ''2021-06-30'']
                 = Success data (Some mm)
             \<and> length data = 2 \<and> meta_total mm = Some 2
             \<and> meta_period mm = Some (''2021-01-01'', ''2021-06-30''))
   \<and> (\<exists>mm. timeseries noRows exToISOString exFormatDecimal Map.empty = Success [] (Some mm)
             \<and> meta_total mm = Some 0 \<and> meta_period mm = Some ('''', ''''))"
proof -
  let ?req = "[''end_date'' \<mapsto> QStr ''2021-06-30'']"
  obtain data m where r: "timeseries exTimeSeriesDb exToISOString exFormatDecimal ?req = Success data m"
    and d: "length data = 2" "ts_period (hd data) = ''2021-01-01''"
    by (simp add: handler_evals parse_evals date_evals Let_def buildTimeSeries_def exTimeSeriesDb_def
        exTimeSeriesRows_def exToISOString_def)
  have d': "data \<noteq> []" using d(1) by auto
  have 1: "\<exists>data mm. timeseries exTimeSeriesDb exToISOString exFormatDecimal ?req = Success data (Some mm)
             \<and> length data = 2 \<and> meta_total mm = Some 2
             \<and> meta_period mm = Some (''2021-01-01'', ''2021-06-30'')"
    using timeseries_meta [OF r] r d d' by (auto simp: parseStringParam_def)
  obtain m0 where r0: "timeseries noRows exToISOString exFormatDecimal Map.empty = Success [] m0"
    by (simp add: handler_evals parse_evals Let_def buildTimeSeries_def noRows_def)
  have 2: "\<exists>mm. timeseries noRows exToISOString exFormatDecimal Map.empty = Success [] (Some mm)
             \<and> meta_total mm = Some 0 \<and> meta_period mm = Some ('''', '''')"
    using timeseries_meta [OF r0] r0 by auto
  show ?thesis by (intro conjI 1 2)
qed

section \<open>A filter by the id 0\<close>

lemma ifNumber_zero: "ifNumber (Some 0) f b = ifNumber None f b"
  by (simp add: ifNumber_def)

lemma build_zero:
  "buildTimeSeries g sd ed (Some 0) gid = buildTimeSeries g sd ed None gid"
  "buildTimeSeries g sd ed uid (Some 0) = buildTimeSeries g sd ed uid None"
  "buildUserPerformance sd ed (Some 0) l off = buildUserPerformance sd ed None l off"
  "buildGroupPerformance sd ed (Some 0) = buildGroupPerformance sd ed None"
  by (simp_all add: buildTimeSeries_def buildUserPerformance_def buildGroupPerformance_def
      ifNumber_zero)

lemma get_zero:
  "getTimeSeries q toISOString fd g sd ed (Some 0) gid = getTimeSeries q toISOString fd g sd ed None gid"
  "getTimeSeries q toISOString fd g sd ed uid (Some 0) = getTimeSeries q toISOString fd g sd ed uid None"
  "getUserPerformance q' fd sd ed (Some 0) l off = getUserPerformance q' fd sd ed None l off"
  by (simp_all add: getTimeSeries_def getUserPerformance_def build_zero cong: sum.case_cong)

text \<open>
  C9. \<open>user_id=0\<close> and \<open>group_id=0\<close> parse to the number 0, and the query functions test
  their filters by truthiness: the statement and the parameters built for the id 0 are those
  built without that filter (time series, user performance, group performance), and the
  timeseries and users endpoints answer a request with the id 0 as they answer the request
  without that parameter.
\<close>

theorem id_zero_is_no_filter:
  "parseIntParam (Some (QStr ''0'')) = Some 0
   \<and> buildTimeSeries g sd ed (Some 0) gid = buildTimeSeries g sd ed None gid
   \<and> buildTimeSeries g sd ed uid (Some 0) = buildTimeSeries g sd ed uid None
   \<and> buildUserPerformance sd ed (Some 0) l off = buildUserPerformance sd ed None l off
   \<and> buildGroupPerformance sd ed (Some 0) = buildGroupPerformance sd ed None
   \<and> timeseries q toISOString fd (req(''user_id'' \<mapsto> QStr ''0''))
       = timeseries q toISOString fd (req(''user_id'' := None))
   \<and> timeseries q toISOString fd (req(''group_id'' \<mapsto> QStr ''0''))
       = timeseries q toISOString fd (req(''group_id'' := None))
   \<and> users q' fd (req(''user_id'' \<mapsto> QStr ''0'')) = users q' fd (req(''user_id'' := None))"
  by (simp add: timeseries_def users_def parseIntParam_examples get_zero build_zero Let_def)

section \<open>The integer a parameter begins with\<close>










section \<open>The text of a statement and its parameters\<close>

lemma ifString_inc_text:
  assumes "truthyString v = truthyString v'" "conditions b = conditions b'" "paramIndex b = paramIndex b'"
  shows "conditions (ifString v (\<lambda>x. increment \<circ> push lhs (PStr x)) b)
           = conditions (ifString v' (\<lambda>x. increment \<circ> push lhs (PStr x)) b')"
    and "paramIndex (ifString v (\<lambda>x. increment \<circ> push lhs (PStr x)) b)
           = paramIndex (ifString v' (\<lambda>x. increment \<circ> push lhs (PStr x)) b')"
  using assms by (cases v; cases v'; simp add: ifString_def push_def increment_def)+

lemma ifString_text:
  assumes "truthyString v = truthyString v'" "conditions b = conditions b'" "paramIndex b = paramIndex b'"
  shows "conditions (ifString v (\<lambda>x. push lhs (PStr x)) b)
           = conditions (ifString v' (\<lambda>x. push lhs (PStr x)) b')"
  using assms by (cases v; cases v'; simp add: ifString_def push_def)

lemma ifNumber_inc_text:
  assumes "truthyNumber v = truthyNumber v'" "conditions b = conditions b'" "paramIndex b = paramIndex b'"
  shows "conditions (ifNumber v (\<lambda>x. increment \<circ> push lhs (PNum x)) b)
           = conditions (ifNumber v' (\<lambda>x. increment \<circ> push lhs (PNum x)) b')"
    and "paramIndex (ifNumber v (\<lambda>x. increment \<circ> push lhs (PNum x)) b)
           = paramIndex (ifNumber v' (\<lambda>x. increment \<circ> push lhs (PNum x)) b')"
  using assms by (cases v; cases v'; simp add: ifNumber_def push_def increment_def)+

lemma ifNumber_text:
  assumes "truthyNumber v = truthyNumber v'" "conditions b = conditions b'" "paramIndex b = paramIndex b'"
  shows "conditions (ifNumber v (\<lambda>x. push lhs (PNum x)) b)
           = conditions (ifNumber v' (\<lambda>x. push lhs (PNum x)) b')"
  using assms by (cases v; cases v'; simp add: ifNumber_def push_def)

lemma ifString_inc_params:
  "params (ifString v (\<lambda>x. increment \<circ> push lhs (PStr x)) b) = params b @ boundString v"
  by (cases v) (simp_all add: ifString_def push_def increment_def)

lemma ifString_params:
  "params (ifString v (\<lambda>x. push lhs (PStr x)) b) = params b @ boundString v"
  by (cases v) (simp_all add: ifString_def push_def)

lemma ifNumber_inc_params:
  "params (ifNumber v (\<lambda>x. increment \<circ> push lhs (PNum x)) b) = params b @ boundNumber v"
  by (cases v) (simp_all add: ifNumber_def push_def increment_def)

lemma ifNumber_params:
  "params (ifNumber v (\<lambda>x. push lhs (PNum x)) b) = params b @ boundNumber v"
  by (cases v) (simp_all add: ifNumber_def push_def)

lemmas builder_params = ifString_inc_params ifString_params ifNumber_inc_params ifNumber_params

lemma whereClauseOf_cong: "conditions b = conditions b' \<Longrightarrow> whereClauseOf b = whereClauseOf b'"
  by (simp add: whereClauseOf_def)

lemma timeSeries_text:
  assumes "truthyString sd = truthyString sd'" "truthyString ed = truthyString ed'"
    "truthyNumber u = truthyNumber u'" "truthyNumber g = truthyNumber g'"
  shows "fst (buildTimeSeries tf sd ed u g) = fst (buildTimeSeries tf sd' ed' u' g')"
proof -
  let ?b1 = "\<lambda>sd. ifString sd (\<lambda>v. increment \<circ> push ''s.date >= '' (PStr v)) emptyBuilder"
  let ?b2 = "\<lambda>sd ed. ifString ed (\<lambda>v. increment \<circ> push ''s.date <= '' (PStr v)) (?b1 sd)"
  let ?b3 = "\<lambda>sd ed u. ifNumber u (\<lambda>v. increment \<circ> push ''s.user_id = '' (PNum v)) (?b2 sd ed)"
  let ?b4 = "\<lambda>sd ed u g. ifNumber g (\<lambda>v. push ''ug.group_id = '' (PNum v)) (?b3 sd ed u)"
  have 1: "conditions (?b1 sd) = conditions (?b1 sd')" "paramIndex (?b1 sd) = paramIndex (?b1 sd')"
    using assms(1) by (auto intro: ifString_inc_text)
  have 2: "conditions (?b2 sd ed) = conditions (?b2 sd' ed')"
          "paramIndex (?b2 sd ed) = paramIndex (?b2 sd' ed')"
    using assms(2) 1 by (auto intro: ifString_inc_text)
  have 3: "conditions (?b3 sd ed u) = conditions (?b3 sd' ed' u')"
          "paramIndex (?b3 sd ed u) = paramIndex (?b3 sd' ed' u')"
    using assms(3) 2 by (auto intro: ifNumber_inc_text)
  have 4: "conditions (?b4 sd ed u g) = conditions (?b4 sd' ed' u' g')"
    using assms(4) 3 by (auto intro: ifNumber_text)
  show ?thesis
    using whereClauseOf_cong [OF 4] assms(4) by (simp add: buildTimeSeries_def Let_def)
qed

lemma timeSeries_params:
  "snd (buildTimeSeries tf sd ed u g) = boundString sd @ boundString ed @ boundNumber u @ boundNumber g"
  by (simp add: buildTimeSeries_def Let_def builder_params emptyBuilder_def)

lemma userPerformance_text:
  assumes "truthyString sd = truthyString sd'" "truthyString ed = truthyString ed'"
    "truthyNumber u = truthyNumber u'" "(l = None) = (l' = None)" "(off = None) = (off' = None)"
  shows "fst (buildUserPerformance sd ed u l off) = fst (buildUserPerformance sd' ed' u' l' off')"
proof -
  let ?b1 = "\<lambda>sd. ifString sd (\<lambda>v. increment \<circ> push ''s.date >= '' (PStr v)) emptyBuilder"
  let ?b2 = "\<lambda>sd ed. ifString ed (\<lambda>v. increment \<circ> push ''s.date <= '' (PStr v)) (?b1 sd)"
  let ?b3 = "\<lambda>sd ed u. ifNumber u (\<lambda>v. increment \<circ> push ''u.id = '' (PNum v)) (?b2 sd ed)"
  have 1: "conditions (?b1 sd) = conditions (?b1 sd')" "paramIndex (?b1 sd) = paramIndex (?b1 sd')"
    using assms(1) by (auto intro: ifString_inc_text)
  have 2: "conditions (?b2 sd ed) = conditions (?b2 sd' ed')"
          "paramIndex (?b2 sd ed) = paramIndex (?b2 sd' ed')"
    using assms(2) 1 by (auto intro: ifString_inc_text)
  have 3: "conditions (?b3 sd ed u) = conditions (?b3 sd' ed' u')"
          "paramIndex (?b3 sd ed u) = paramIndex (?b3 sd' ed' u')"
    using assms(3) 2 by (auto intro: ifNumber_inc_text)
  show ?thesis
    using whereClauseOf_cong [OF 3(1)] 3(2) assms(4,5)
    by (cases l; cases l'; cases off; cases off'; simp add: buildUserPerformance_def Let_def)
qed

lemma userPerformance_params:
  "snd (buildUserPerformance sd ed u l off)
     = boundString sd @ boundString ed @ boundNumber u @ boundDefined l @ boundDefined off"
  by (cases l; cases off; simp add: buildUserPerformance_def Let_def builder_params emptyBuilder_def)

lemma groupPerformance_text:
  assumes "truthyString sd = truthyString sd'" "truthyString ed = truthyString ed'"
    "truthyNumber g = truthyNumber g'"
  shows "fst (buildGroupPerformance sd ed g) = fst (buildGroupPerformance sd' ed' g')"
proof -
  let ?b1 = "\<lambda>sd. ifString sd (\<lambda>v. increment \<circ> push ''s.date >= '' (PStr v)) emptyBuilder"
  let ?b2 = "\<lambda>sd ed. ifString ed (\<lambda>v. increment \<circ> push ''s.date <= '' (PStr v)) (?b1 sd)"
  let ?b3 = "\<lambda>sd ed g. ifNumber g (\<lambda>v. push ''g.id = '' (PNum v)) (?b2 sd ed)"
  have 1: "conditions (?b1 sd) = conditions (?b1 sd')" "paramIndex (?b1 sd) = paramIndex (?b1 sd')"
    using assms(1) by (auto intro: ifString_inc_text)
  have 2: "conditions (?b2 sd ed) = conditions (?b2 sd' ed')"
          "paramIndex (?b2 sd ed) = paramIndex (?b2 sd' ed')"
    using assms(2) 1 by (auto intro: ifString_inc_text)
  have 3: "conditions (?b3 sd ed g) = conditions (?b3 sd' ed' g')"
    using assms(3) 2 by (auto intro: ifNumber_text)
  show ?thesis
    using whereClauseOf_cong [OF 3] by (simp add: buildGroupPerformance_def Let_def)
qed

lemma groupPerformance_params:
  "snd (buildGroupPerformance sd ed g) = boundString sd @ boundString ed @ boundNumber g"
  by (simp add: buildGroupPerformance_def Let_def builder_params emptyBuilder_def)

lemma leaderboard_text:
  assumes "truthyString sd = truthyString sd'" "truthyString ed = truthyString ed'"
  shows "fst (buildLeaderboard sd ed l) = fst (buildLeaderboard sd' ed' l')"
proof -
  let ?b1 = "\<lambda>sd. ifString sd (\<lambda>v. increment \<circ> push ''s.date >= '' (PStr v)) emptyBuilder"
  let ?b2 = "\<lambda>sd ed. ifString ed (\<lambda>v. increment \<circ> push ''s.date <= '' (PStr v)) (?b1 sd)"
  have 1: "conditions (?b1 sd) = conditions (?b1 sd')" "paramIndex (?b1 sd) = paramIndex (?b1 sd')"
    using assms(1) by (auto intro: ifString_inc_text)
  have 2: "conditions (?b2 sd ed) = conditions (?b2 sd' ed')"
          "paramIndex (?b2 sd ed) = paramIndex (?b2 sd' ed')"
    using assms(2) 1 by (auto intro: ifString_inc_text)
  show ?thesis
    using whereClauseOf_cong [OF 2(1)] 2(2) by (simp add: buildLeaderboard_def Let_def)
qed

lemma leaderboard_params:
  "snd (buildLeaderboard sd ed l)
     = boundString sd @ boundString ed @ [PNum (case l of None \<Rightarrow> 10 | Some n \<Rightarrow> n)]"
  by (simp add: buildLeaderboard_def Let_def builder_params emptyBuilder_def)

lemma summaryStats_text:
  assumes "truthyString sd = truthyString sd'" "truthyString ed = truthyString ed'"
  shows "fst (buildSummaryStats sd ed) = fst (buildSummaryStats sd' ed')"
proof -
  let ?b1 = "\<lambda>sd. ifString sd (\<lambda>v. increment \<circ> push ''date >= '' (PStr v)) emptyBuilder"
  let ?b2 = "\<lambda>sd ed. ifString ed (\<lambda>v. push ''date <= '' (PStr v)) (?b1 sd)"
  have 1: "conditions (?b1 sd) = conditions (?b1 sd')" "paramIndex (?b1 sd) = paramIndex (?b1 sd')"
    using assms(1) by (auto intro: ifString_inc_text)
  have 2: "conditions (?b2 sd ed) = conditions (?b2 sd' ed')"
    using assms(2) 1 by (auto intro: ifString_text)
  show ?thesis
    using whereClauseOf_cong [OF 2] by (simp add: buildSummaryStats_def Let_def)
qed

lemma summaryStats_params:
  "snd (buildSummaryStats sd ed) = boundString sd @ boundString ed"
  by (simp add: buildSummaryStats_def Let_def builder_params emptyBuilder_def)

lemma periodComparison_text_params:
  "fst (buildPeriodComparison a b c d) = fst (buildPeriodComparison a' b' c' d')"
  "snd (buildPeriodComparison a b c d) = [PStr a, PStr b, PStr c, PStr d]"
  by (simp_all add: buildPeriodComparison_def)

lemma getTimeSeries_refuses:
  assumes "g \<notin> {''day'', ''week'', ''month'', ''quarter'', ''year''}"
  shows "getTimeSeries query toISOString formatDecimal g sd ed u gid
           = Inl (Error (''Invalid granularity: '' @ g))"
  using assms
  by (simp add: getTimeSeries_def getSafeDateTruncInterval_def VALID_DATE_TRUNC_INTERVALS_def
      VALID_GRANULARITIES_def)


text \<open>
  C2, as the code has it. The dates, the ids, the limit and the offset enter a statement as
  bound parameters only: the text of each of the six statements is the same for any two
  sets of filters in which the same filters are present (truthy dates and ids, defined
  limit and offset), and the parameter list is the list of the values present, in the order
  of construction. The granularity is not bound: for the time series it is written into the
  text, and \<open>getTimeSeries\<close> throws before it builds anything when the granularity is
  not one of the five fixed values.
\<close>

theorem statement_text_fixed_by_presence:
  assumes "truthyString sd = truthyString sd'" "truthyString ed = truthyString ed'"
    "truthyNumber u = truthyNumber u'" "truthyNumber g = truthyNumber g'"
    "(l = None) = (l' = None)" "(off = None) = (off' = None)"
  shows "fst (buildTimeSeries tf sd ed u g) = fst (buildTimeSeries tf sd' ed' u' g')
       \<and> fst (buildUserPerformance sd ed u l off) = fst (buildUserPerformance sd' ed' u' l' off')
       \<and> fst (buildGroupPerformance sd ed g) = fst (buildGroupPerformance sd' ed' g')
       \<and> fst (buildLeaderboard sd ed l) = fst (buildLeaderboard sd' ed' l')
       \<and> fst (buildSummaryStats sd ed) = fst (buildSummaryStats sd' ed')
       \<and> fst (buildPeriodComparison a b c d) = fst (buildPeriodComparison a' b' c' d')
       \<and> snd (buildTimeSeries tf sd ed u g)
           = boundString sd @ boundString ed @ boundNumber u @ boundNumber g
       \<and> snd (buildUserPerformance sd ed u l off)
           = boundString sd @ boundString ed @ boundNumber u @ boundDefined l @ boundDefined off
       \<and> snd (buildGroupPerformance sd ed g) = boundString sd @ boundString ed @ boundNumber g
       \<and> snd (buildLeaderboard sd ed l)
           = boundString sd @ boundString ed @ [PNum (case l of None \<Rightarrow> 10 | Some n \<Rightarrow> n)]
       \<and> snd (buildSummaryStats sd ed) = boundString sd @ boundString ed
       \<and> snd (buildPeriodComparison a b c d) = [PStr a, PStr b, PStr c, PStr d]
       \<and> (tf \<notin> {''day'', ''week'', ''month'', ''quarter'', ''year''} \<longrightarrow>
            getTimeSeries query toISOString formatDecimal tf sd ed u g
              = Inl (Error (''Invalid granularity: '' @ tf)))"
proof (intro conjI impI)
  show "fst (buildTimeSeries tf sd ed u g) = fst (buildTimeSeries tf sd' ed' u' g')"
    using assms(1-4) by (rule timeSeries_text)
  show "fst (buildUserPerformance sd ed u l off) = fst (buildUserPerformance sd' ed' u' l' off')"
    using assms(1-3,5,6) by (rule userPerformance_text)
  show "fst (buildGroupPerformance sd ed g) = fst (buildGroupPerformance sd' ed' g')"
    using assms(1,2,4) by (rule groupPerformance_text)
  show "fst (buildLeaderboard sd ed l) = fst (buildLeaderboard sd' ed' l')"
    using assms(1,2) by (rule leaderboard_text)
  show "fst (buildSummaryStats sd ed) = fst (buildSummaryStats sd' ed')"
    using assms(1,2) by (rule summaryStats_text)
  show "fst (buildPeriodComparison a b c d) = fst (buildPeriodComparison a' b' c' d')"
    by (rule periodComparison_text_params)
  show "snd (buildTimeSeries tf sd ed u g)
          = boundString sd @ boundString ed @ boundNumber u @ boundNumber g"
    by (rule timeSeries_params)
  show "snd (buildUserPerformance sd ed u l off)
          = boundString sd @ boundString ed @ boundNumber u @ boundDefined l @ boundDefined off"
    by (rule userPerformance_params)
  show "snd (buildGroupPerformance sd ed g) = boundString sd @ boundString ed @ boundNumber g"
    by (rule groupPerformance_params)
  show "snd (buildLeaderboard sd ed l)
          = boundString sd @ boundString ed @ [PNum (case l of None \<Rightarrow> 10 | Some n \<Rightarrow> n)]"
    by (rule leaderboard_params)
  show "snd (buildSummaryStats sd ed) = boundString sd @ boundString ed"
    by (rule summaryStats_params)
  show "snd (buildPeriodComparison a b c d) = [PStr a, PStr b, PStr c, PStr d]"
    by (rule periodComparison_text_params)
next
  assume "tf \<notin> {''day'', ''week'', ''month'', ''quarter'', ''year''}"
  then show "getTimeSeries query toISOString formatDecimal tf sd ed u g
               = Inl (Error (''Invalid granularity: '' @ tf))"
    by (rule getTimeSeries_refuses)
qed

text \<open>
  Two requests for the monthly series that bind different dates and users, and two pages of
  the user performance; a granularity that is not on the list.
\<close>

theorem statement_text_fixed_by_presence_witness:
  "fst (buildTimeSeries ''month'' (Some ''2021-01-01'') None (Some 5) None)
     = fst (buildTimeSeries ''month'' (Some ''2021-06-01'') None (Some 9) None)
   \<and> snd (buildTimeSeries ''month'' (Some ''2021-01-01'') None (Some 5) None)
     = [PStr ''2021-01-01'', PNum 5]
   \<and> fst (buildUserPerformance (Some ''2021-01-01'') None (Some 5) (Some 10) (Some 0))
     = fst (buildUserPerformance (Some ''2021-06-01'') None (Some 9) (Some 20) (Some 40))
   \<and> snd (buildUserPerformance (Some ''2021-01-01'') None (Some 5) (Some 10) (Some 0))
     = [PStr ''2021-01-01'', PNum 5, PNum 10, PNum 0]
   \<and> getTimeSeries exTimeSeriesDb exToISOString exFormatDecimal ''hour'' (Some ''2021-01-01'') None
        (Some 5) None
     = Inl (Error ''Invalid granularity: hour'')"
proof -
  note t = statement_text_fixed_by_presence
    [of "Some ''2021-01-01''" "Some ''2021-06-01''" None None "Some 5" "Some 9" None None
        "Some 10" "Some 20" "Some 0" "Some 40"]
  have p: "truthyString (Some ''2021-01-01'') = truthyString (Some ''2021-06-01'')"
    "truthyString None = truthyString None" "truthyNumber (Some 5) = truthyNumber (Some 9)"
    "truthyNumber None = truthyNumber None" "(Some (10::int) = None) = (Some (20::int) = None)"
    "(Some (0::int) = None) = (Some (40::int) = None)"
    by simp_all
  note m = t [OF p, of "''month''" "''a''" "''b''" "''c''" "''d''" "''a''" "''b''" "''c''" "''d''"
      exTimeSeriesDb exToISOString exFormatDecimal]
  note h = t [OF p, of "''hour''" "''a''" "''b''" "''c''" "''d''" "''a''" "''b''" "''c''" "''d''"
      exTimeSeriesDb exToISOString exFormatDecimal]
  have 1: "fst (buildTimeSeries ''month'' (Some ''2021-01-01'') None (Some 5) None)
             = fst (buildTimeSeries ''month'' (Some ''2021-06-01'') None (Some 9) None)"
    using m by (elim conjE)
  have 2: "snd (buildTimeSeries ''month'' (Some ''2021-01-01'') None (Some 5) None)
             = [PStr ''2021-01-01'', PNum 5]"
    using m by (elim conjE) simp
  have 3: "fst (buildUserPerformance (Some ''2021-01-01'') None (Some 5) (Some 10) (Some 0))
             = fst (buildUserPerformance (Some ''2021-06-01'') None (Some 9) (Some 20) (Some 40))"
    using m by (elim conjE)
  have 4: "snd (buildUserPerformance (Some ''2021-01-01'') None (Some 5) (Some 10) (Some 0))
             = [PStr ''2021-01-01'', PNum 5, PNum 10, PNum 0]"
    using m by (elim conjE) simp
  have 5: "getTimeSeries exTimeSeriesDb exToISOString exFormatDecimal ''hour'' (Some ''2021-01-01'') None
             (Some 5) None
           = Inl (Error ''Invalid granularity: hour'')"
    using h by (elim conjE) simp
  show ?thesis by (intro conjI 1 2 3 4 5)
qed

text \<open>
  C2 as it is stated fails for the granularity: \<open>day\<close> and \<open>month\<close> are both valid, no
  other filter is set, no parameter is bound, and the two statements differ in their text.
\<close>

theorem granularity_is_written_into_the_text:
  "''day'' \<in> VALID_DATE_TRUNC_INTERVALS \<and> ''month'' \<in> VALID_DATE_TRUNC_INTERVALS
   \<and> snd (buildTimeSeries ''day'' None None None None) = []
   \<and> snd (buildTimeSeries ''month'' None None None None) = []
   \<and> fst (buildTimeSeries ''day'' None None None None)
       \<noteq> fst (buildTimeSeries ''month'' None None None None)"
  by (simp add: buildTimeSeries_def Let_def ifString_def ifNumber_def sql_getTimeSeries_def
      emptyBuilder_def VALID_DATE_TRUNC_INTERVALS_def VALID_GRANULARITIES_def)

section \<open>The total of the user performance\<close>









section \<open>A period without sales\<close>

lemma comparisonGroup_label:
  "r \<in> set (comparisonGroup avgText selected d1 d2 d3 d4 label) \<Longrightarrow> cr_period_label r = label"
  by (auto simp: comparisonGroup_def Let_def split: if_splits)

lemma comparisonGroup_empty:
  assumes "\<forall>s\<in>set selected. periodLabel d1 d2 d3 d4 s \<noteq> Some label"
  shows "comparisonGroup avgText selected d1 d2 d3 d4 label = []"
proof -
  have "filter (\<lambda>s. periodLabel d1 d2 d3 d4 s = Some label) selected = []"
    using assms by (simp add: filter_empty_conv)
  then show ?thesis by (simp add: comparisonGroup_def)
qed

lemma no_current_row:
  assumes "\<forall>s\<in>set sales. \<not> inPeriod d1 d2 s"
  shows "\<forall>r\<in>set (comparisonAnswer avgText sales d1 d2 d3 d4). cr_period_label r \<noteq> ''current''"
proof -
  let ?selected = "filter (\<lambda>s. inPeriod d1 d2 s \<or> inPeriod d3 d4 s) sales"
  have "\<forall>s\<in>set ?selected. periodLabel d1 d2 d3 d4 s \<noteq> Some ''current''"
    using assms by (auto simp: periodLabel_def)
  then have "comparisonGroup avgText ?selected d1 d2 d3 d4 ''current'' = []"
    by (rule comparisonGroup_empty)
  then show ?thesis
    by (auto simp: comparisonAnswer_def Let_def dest: comparisonGroup_label)
qed

lemma no_previous_row:
  assumes "\<forall>s\<in>set sales. \<not> inPeriod d3 d4 s"
  shows "\<forall>r\<in>set (comparisonAnswer avgText sales d1 d2 d3 d4). cr_period_label r \<noteq> ''previous''"
proof -
  let ?selected = "filter (\<lambda>s. inPeriod d1 d2 s \<or> inPeriod d3 d4 s) sales"
  have "\<forall>s\<in>set ?selected. periodLabel d1 d2 d3 d4 s \<noteq> Some ''previous''"
    using assms by (auto simp: periodLabel_def)
  then have "comparisonGroup avgText ?selected d1 d2 d3 d4 ''previous'' = []"
    by (rule comparisonGroup_empty)
  then show ?thesis
    by (auto simp: comparisonAnswer_def Let_def dest: comparisonGroup_label)
qed

lemma find_None: "\<forall>r\<in>set rows. \<not> P r \<Longrightarrow> find P rows = None"
  by (simp add: find_None_iff)

lemma periodMetrics_None: "periodMetrics formatDecimal periodText None = zeroMetrics periodText"
  by (simp add: periodMetrics_def zeroMetrics_def)

text \<open>
  C4. Let the database answer the statement of \<open>getPeriodComparison\<close> with the rows that
  statement reads from the table of sales, in any order. Then the function returns a
  comparison, and a period whose range holds no sale has its entry all the same, with its
  label and with total revenue, sale count and average revenue 0.
\<close>

theorem period_without_sales_has_zero_metrics:
  assumes db: "query (fst (buildPeriodComparison cs ce ps pe)) (snd (buildPeriodComparison cs ce ps pe))
               = Inr rows"
    and rows: "set rows = set (comparisonAnswer avgText sales d1 d2 d3 d4)"
  shows "\<exists>r. getPeriodComparison query formatDecimal percent cs ce ps pe = Inr r
           \<and> ((\<forall>s\<in>set sales. \<not> inPeriod d1 d2 s) \<longrightarrow> current r = zeroMetrics (cs @ '' to '' @ ce))
           \<and> ((\<forall>s\<in>set sales. \<not> inPeriod d3 d4 s) \<longrightarrow> previous r = zeroMetrics (ps @ '' to '' @ pe))"
proof -
  have c: "find (\<lambda>r. cr_period_label r = ''current'') rows = None"
    if "\<forall>s\<in>set sales. \<not> inPeriod d1 d2 s"
    using no_current_row [OF that, of avgText d3 d4] rows by (intro find_None) simp
  have p: "find (\<lambda>r. cr_period_label r = ''previous'') rows = None"
    if "\<forall>s\<in>set sales. \<not> inPeriod d3 d4 s"
    using no_previous_row [OF that, of avgText d1 d2] rows by (intro find_None) simp
  show ?thesis
    using db c p
    by (auto simp: getPeriodComparison_def Let_def periodMetrics_None split: prod.splits)
qed

text \<open>
  The only sale is on day 40, in the previous period (days 32..59); the current period
  (days 1..31) has none.
\<close>

theorem period_without_sales_has_zero_metrics_witness:
  "\<exists>r. getPeriodComparison exComparisonDb exFormatDecimal exPercent
          ''2021-01-01'' ''2021-01-31'' ''2021-02-01'' ''2021-02-28'' = Inr r
       \<and> current r
           = \<lparr>pm_period = ''2021-01-01 to 2021-01-31'', pm_total_revenue = Number 0,
              pm_sale_count = Number 0, pm_average_revenue = 0\<rparr>
       \<and> pm_total_revenue (previous r) = Number 500"
proof -
  let ?rows = "comparisonAnswer exAvgText exSales 1 31 32 59"
  have db: "exComparisonDb
              (fst (buildPeriodComparison ''2021-01-01'' ''2021-01-31'' ''2021-02-01'' ''2021-02-28''))
              (snd (buildPeriodComparison ''2021-01-01'' ''2021-01-31'' ''2021-02-01'' ''2021-02-28''))
            = Inr ?rows"
    by (simp add: exComparisonDb_def)
  have n: "\<forall>s\<in>set exSales. \<not> inPeriod 1 31 s"
    by (simp add: exSales_def inPeriod_def)
  obtain r where r: "getPeriodComparison exComparisonDb exFormatDecimal exPercent
                       ''2021-01-01'' ''2021-01-31'' ''2021-02-01'' ''2021-02-28'' = Inr r"
    and c: "(\<forall>s\<in>set exSales. \<not> inPeriod 1 31 s) \<longrightarrow>
              current r = zeroMetrics (''2021-01-01'' @ '' to '' @ ''2021-01-31'')"
    using period_without_sales_has_zero_metrics
      [where query = exComparisonDb and cs = "''2021-01-01''" and ce = "''2021-01-31''"
         and ps = "''2021-02-01''" and pe = "''2021-02-28''" and rows = ?rows
         and avgText = exAvgText and sales = exSales and ?d1.0 = 1 and ?d2.0 = 31 and ?d3.0 = 32
         and ?d4.0 = 59 and formatDecimal = exFormatDecimal and percent = exPercent,
       OF db refl]
    by blast
  have p: "pm_total_revenue (previous r) = Number 500"
    using r
    by (auto simp: getPeriodComparison_def buildPeriodComparison_def exComparisonDb_def
        comparisonAnswer_def comparisonGroup_def periodLabel_def inPeriod_def exSales_def
        exAvgText_def intText_def periodMetrics_def parseNumericString_def parseInt_def
        isStrWhiteSpaceChar_def isDigit_def decimalValue_def digitVal_def Let_def)
  show ?thesis
    using r c n p by (auto simp: zeroMetrics_def)
qed

end
